theory Spec2Isabelle
  imports Main "HOL-Library.Sublist"
begin

section \<open>Strings, truthiness and exceptions of the Python source\<close>

text \<open>
  The module \<^verbatim>\<open>matisse/theme/box.py\<close> works on Python strings. A string is modelled as
  a list of characters with code points below 256; an attribute that may be \<^verbatim>\<open>None\<close> is a
  \<open>string option\<close>. Every exception the code can raise is a value of \<open>py_error\<close>; a function
  that may raise returns \<open>py_error + 'a\<close> with \<open>Inl\<close> for the exception.
\<close>

datatype py_error =
    AttributeError      \<comment> \<open>a string method called on \<^verbatim>\<open>None\<close>\<close>
  | TypeError           \<comment> \<open>\<^verbatim>\<open>doc.text\<close> of yattag given something that is no string or number\<close>
  | UnboundLocalError   \<comment> \<open>a local variable read before any assignment\<close>
  | TemplateError       \<comment> \<open>\<^verbatim>\<open>re.error\<close> or \<^verbatim>\<open>IndexError\<close> of \<^verbatim>\<open>re.sub\<close> for a bad replacement template\<close>

text \<open>\<^verbatim>\<open>if x:\<close> for a value that is \<^verbatim>\<open>None\<close> or a string: false for \<^verbatim>\<open>None\<close> and for the empty string.\<close>

fun truthy :: "string option \<Rightarrow> bool" where
  "truthy None = False"
| "truthy (Some s) = (s \<noteq> [])"

text \<open>
  \<^verbatim>\<open>str.isspace\<close> on one character, for code points below 256: tab to carriage return,
  the separators 0x1C to 0x1F, space, 0x85 and 0xA0.
\<close>

definition is_space :: "char \<Rightarrow> bool" where
  "is_space c = (let n = (of_char c :: nat) in
     (9 \<le> n \<and> n \<le> 13) \<or> (28 \<le> n \<and> n \<le> 32) \<or> n = 133 \<or> n = 160)"

text \<open>\<^verbatim>\<open>s.strip()\<close>: whitespace removed at both ends.\<close>

definition strip :: "string \<Rightarrow> string" where
  "strip s = rev (dropWhile is_space (rev (dropWhile is_space s)))"

text \<open>\<^verbatim>\<open>x.strip()\<close> where \<^verbatim>\<open>x\<close> may be \<^verbatim>\<open>None\<close>: Python raises AttributeError then.\<close>

fun py_strip :: "string option \<Rightarrow> py_error + string" where
  "py_strip None = Inl AttributeError"
| "py_strip (Some s) = Inr (strip s)"

text \<open>
  \<^verbatim>\<open>str.lower\<close> on one character, for code points below 256: the ASCII capitals and the
  Latin-1 capitals 0xC0 to 0xDE (0xD7, the multiplication sign, apart) move up by 32.
\<close>

definition lower_char :: "char \<Rightarrow> char" where
  "lower_char c = (let n = (of_char c :: nat) in
     if (65 \<le> n \<and> n \<le> 90) \<or> (192 \<le> n \<and> n \<le> 222 \<and> n \<noteq> 215) then char_of (n + 32) else c)"

fun py_lower :: "string option \<Rightarrow> py_error + string" where
  "py_lower None = Inl AttributeError"
| "py_lower (Some s) = Inr (map lower_char s)"

section \<open>The regular expressions\<close>

text \<open>
  The four patterns of the module are built from three kinds of pieces, matched left to
  right with backtracking as Python's \<^verbatim>\<open>re\<close> does (all four are compiled with
  \<^verbatim>\<open>re.DOTALL\<close>, so \<^verbatim>\<open>.\<close> matches every character):
  \<^item> \<open>Lit l\<close>: the literal text \<open>l\<close>;
  \<^item> \<open>Until n l\<close>: \<^verbatim>\<open>(?P<n>.*?)\<close> followed by the literal \<open>l\<close>: the shortest text is tried
    first, and a longer one when the rest of the pattern fails;
  \<^item> \<open>StarGrp n a b\<close>: \<^verbatim>\<open>(a(?P<n>.*?)b)*\<close> for two characters \<open>a\<close>, \<open>b\<close>: one more
    repetition is tried first; the group \<open>n\<close> keeps the text of the last repetition.
\<close>

datatype piece = Lit string | Until string string | StarGrp string char char

type_synonym groups = "string \<rightharpoonup> string"

text \<open>
  \<open>run p g s\<close> matches the pieces \<open>p\<close> at the start of \<open>s\<close> with the groups \<open>g\<close> set so far,
  and returns the groups and the text left after the match, or \<open>None\<close> when no way of
  matching succeeds. \<open>until n l k g acc s\<close> is inside \<^verbatim>\<open>(?P<n>.*?)\<close>, having taken \<open>rev acc\<close>
  for the group, with the pieces \<open>k\<close> to follow the literal \<open>l\<close>.
\<close>

function run :: "piece list \<Rightarrow> groups \<Rightarrow> string \<Rightarrow> (groups \<times> string) option"
  and until :: "string \<Rightarrow> string \<Rightarrow> piece list \<Rightarrow> groups \<Rightarrow> string \<Rightarrow> string \<Rightarrow> (groups \<times> string) option"
where
  "run [] g s = Some (g, s)"
| "run (Lit l # k) g s = (if prefix l s then run k g (drop (length l) s) else None)"
| "run (Until n l # k) g s = until n l k g [] s"
| "run (StarGrp n a b # k) g s =
     (case (case s of [] \<Rightarrow> None
            | x # r \<Rightarrow> if x = a then until n [b] (StarGrp n a b # k) g [] r else None) of
        Some m \<Rightarrow> Some m
      | None \<Rightarrow> run k g s)"
| "until n l k g acc s =
     (case (if prefix l s then run k (g(n \<mapsto> rev acc)) (drop (length l) s) else None) of
        Some m \<Rightarrow> Some m
      | None \<Rightarrow> (case s of [] \<Rightarrow> None | x # r \<Rightarrow> until n l k g (x # acc) r))"
  by pat_completeness auto
termination
  by (relation "measures [\<lambda>x. case x of Inl (p, g, s) \<Rightarrow> length s | Inr (n, l, k, g, acc, s) \<Rightarrow> length s,
                          \<lambda>x. case x of Inl (p, g, s) \<Rightarrow> 2 * length p | Inr (n, l, k, g, acc, s) \<Rightarrow> 2 * length k + 1]")
     auto

declare until.simps [simp del]

text \<open>
  A match object: the text before the match, the matched text, the named groups
  (\<^verbatim>\<open>match.group(n)\<close> is \<open>m_groups m n\<close>, \<open>None\<close> for a group that took no part) and the
  text after the match.
\<close>

record re_match =
  m_pre :: string
  m_text :: string
  m_groups :: groups
  m_post :: string

text \<open>\<^verbatim>\<open>re.search\<close>: the pattern is tried at every position from the left; the first success wins.\<close>

fun search_from :: "piece list \<Rightarrow> string \<Rightarrow> string \<Rightarrow> re_match option" where
  "search_from p acc s =
     (case run p Map.empty s of
        Some (g, post) \<Rightarrow>
          Some \<lparr>m_pre = rev acc, m_text = take (length s - length post) s, m_groups = g, m_post = post\<rparr>
      | None \<Rightarrow> (case s of [] \<Rightarrow> None | x # r \<Rightarrow> search_from p (x # acc) r))"

declare search_from.simps [simp del]

definition re_search :: "piece list \<Rightarrow> string \<Rightarrow> re_match option" where
  "re_search p s = search_from p [] s"

text \<open>\<^verbatim>\<open>__rebox__ = re.compile(r"\$box(?P<box>.*?)\$endbox",re.DOTALL)\<close>\<close>

definition rebox :: "piece list" where
  "rebox = [Lit ''$box'', Until ''box'' ''$endbox'']"

text \<open>\<^verbatim>\<open>__restl__ = re.compile(r"\$style\[(?P<style>.*?)\]",re.DOTALL)\<close>\<close>

definition restl :: "piece list" where
  "restl = [Lit ''$style['', Until ''style'' '']'']"

text \<open>\<^verbatim>\<open>__rectn__ = re.compile(r"\$content(\((?P<ctn_type>.*?)\))*(\[(?P<ctn_options>.*?)\])*\{(?P<ctn>.*?)\}",re.DOTALL)\<close>\<close>

definition rectn :: "piece list" where
  "rectn = [Lit ''$content'', StarGrp ''ctn_type'' (CHR ''('') (CHR '')''),
            StarGrp ''ctn_options'' (CHR ''['') (CHR '']''), Lit ''{'', Until ''ctn'' ''}'']"

text \<open>\<^verbatim>\<open>__recap__ = re.compile(r"\$caption(\((?P<cap_type>.*?)\))*(\[(?P<cap_options>.*?)\])*(\{(?P<cap>.*?)\})*",re.DOTALL)\<close>\<close>

definition recap :: "piece list" where
  "recap = [Lit ''$caption'', StarGrp ''cap_type'' (CHR ''('') (CHR '')''),
            StarGrp ''cap_options'' (CHR ''['') (CHR '']''), StarGrp ''cap'' (CHR ''{'') (CHR ''}'')]"

section \<open>The class Box\<close>

record Box =
  number :: int
  ctn_type :: string
  style :: "string option"
  ctn_options :: "string option"
  cap_options :: "string option"
  cap_type :: "string option"
  ctn :: "string option"
  cap :: "string option"

text \<open>\<^verbatim>\<open>Box.__init__(self, ctn_type='box')\<close>\<close>

definition Box_init :: "string \<Rightarrow> Box" where
  "Box_init t = \<lparr>number = 0, ctn_type = t, style = None, ctn_options = None,
                 cap_options = None, cap_type = None, ctn = None, cap = None\<rparr>"

text \<open>\<^verbatim>\<open>Box.__get_style\<close>\<close>

definition get_style :: "Box \<Rightarrow> string \<Rightarrow> py_error + Box" where
  "get_style self source =
     (case re_search restl source of
        None \<Rightarrow> Inr self
      | Some m \<Rightarrow>
          (let style' = m_groups m ''style'' in
           if truthy style' then
             (case py_strip style' of Inl e \<Rightarrow> Inl e | Inr s \<Rightarrow> Inr (self\<lparr>style := Some s\<rparr>))
           else Inr self))"

text \<open>
  \<^verbatim>\<open>Box.__get_caption\<close>. The three steps of the body after a match are written as three
  functions, in the order of the source.
\<close>

definition set_cap_type :: "Box \<Rightarrow> string option \<Rightarrow> py_error + Box" where
  "set_cap_type self cap_type' =
     (if truthy cap_type' then
        (case py_lower cap_type' of
           Inl e \<Rightarrow> Inl e
         | Inr low \<Rightarrow>
             if low = ''none'' then Inr (self\<lparr>cap_type := None\<rparr>)
             else (case py_strip cap_type' of Inl e \<Rightarrow> Inl e | Inr s \<Rightarrow> Inr (self\<lparr>cap_type := Some s\<rparr>)))
      else Inr self)"

definition set_cap_options :: "Box \<Rightarrow> string option \<Rightarrow> py_error + Box" where
  "set_cap_options self cap_options' =
     (if truthy cap_options' then
        (case py_strip cap_options' of Inl e \<Rightarrow> Inl e | Inr s \<Rightarrow> Inr (self\<lparr>cap_options := Some s\<rparr>))
      else Inr self)"

definition set_cap :: "Box \<Rightarrow> string option \<Rightarrow> py_error + Box" where
  "set_cap self cap' =
     (let self1 = self\<lparr>cap := cap'\<rparr> in
      if truthy (cap self1) then
        (case py_strip (cap self1) of Inl e \<Rightarrow> Inl e | Inr s \<Rightarrow> Inr (self1\<lparr>cap := Some s\<rparr>))
      else Inr self1)"

definition get_caption :: "Box \<Rightarrow> string \<Rightarrow> py_error + Box" where
  "get_caption self source =
     (case re_search recap source of
        None \<Rightarrow> Inr self
      | Some m \<Rightarrow>
          (case set_cap_type self (m_groups m ''cap_type'') of
             Inl e \<Rightarrow> Inl e
           | Inr self1 \<Rightarrow>
               (case set_cap_options self1 (m_groups m ''cap_options'') of
                  Inl e \<Rightarrow> Inl e
                | Inr self2 \<Rightarrow> set_cap self2 (m_groups m ''cap''))))"

text \<open>\<^verbatim>\<open>Box.__get_content\<close>, in the same way.\<close>

definition set_ctn_type :: "Box \<Rightarrow> string option \<Rightarrow> py_error + Box" where
  "set_ctn_type self ctn_type' =
     (if truthy ctn_type' then
        (case py_strip ctn_type' of Inl e \<Rightarrow> Inl e | Inr s \<Rightarrow> Inr (self\<lparr>ctn_type := s\<rparr>))
      else Inr self)"

definition set_ctn_options :: "Box \<Rightarrow> string option \<Rightarrow> py_error + Box" where
  "set_ctn_options self ctn_options' =
     (if truthy ctn_options' then
        (case py_strip ctn_options' of Inl e \<Rightarrow> Inl e | Inr s \<Rightarrow> Inr (self\<lparr>ctn_options := Some s\<rparr>))
      else Inr self)"

definition set_ctn :: "Box \<Rightarrow> string option \<Rightarrow> py_error + Box" where
  "set_ctn self ctn' =
     (let self1 = self\<lparr>ctn := ctn'\<rparr> in
      if truthy (ctn self1) then
        (case py_strip (ctn self1) of Inl e \<Rightarrow> Inl e | Inr s \<Rightarrow> Inr (self1\<lparr>ctn := Some s\<rparr>))
      else Inr self1)"

definition get_content :: "Box \<Rightarrow> string \<Rightarrow> py_error + Box" where
  "get_content self source =
     (case re_search rectn source of
        None \<Rightarrow> Inr self
      | Some m \<Rightarrow>
          (case set_ctn_type self (m_groups m ''ctn_type'') of
             Inl e \<Rightarrow> Inl e
           | Inr self1 \<Rightarrow>
               (case set_ctn_options self1 (m_groups m ''ctn_options'') of
                  Inl e \<Rightarrow> Inl e
                | Inr self2 \<Rightarrow> set_ctn self2 (m_groups m ''ctn''))))"

text \<open>\<^verbatim>\<open>Box.get\<close>: style, then caption, then content.\<close>

definition get :: "Box \<Rightarrow> string \<Rightarrow> py_error + Box" where
  "get self source =
     (case get_style self source of
        Inl e \<Rightarrow> Inl e
      | Inr self1 \<Rightarrow>
          (case get_caption self1 source of
             Inl e \<Rightarrow> Inl e
           | Inr self2 \<Rightarrow> get_content self2 source))"

text \<open>\<^verbatim>\<open>str(n)\<close> for an integer: its decimal digits, with a minus sign when negative.\<close>

fun str_nat :: "nat \<Rightarrow> string" where
  "str_nat n = (if n < 10 then [''0123456789'' ! n] else str_nat (n div 10) @ [''0123456789'' ! (n mod 10)])"

declare str_nat.simps [simp del]

definition str_int :: "int \<Rightarrow> string" where
  "str_int i = (if i < 0 then CHR ''-'' # str_nat (nat (- i)) else str_nat (nat i))"

text \<open>\<^verbatim>\<open>Box.caption_txt\<close>. With neither branch taken, \<^verbatim>\<open>return txt\<close> reads an unbound local.\<close>

definition caption_txt :: "Box \<Rightarrow> py_error + string" where
  "caption_txt self =
     (if truthy (cap_type self) \<and> truthy (cap self) then
        Inr (the (cap_type self) @ '' '' @ str_int (number self) @ '': '' @ the (cap self))
      else if truthy (cap_type self) then Inr (the (cap_type self))
      else if truthy (cap self) then Inr (the (cap self))
      else Inl UnboundLocalError)"

section \<open>Rendering with yattag\<close>

text \<open>
  The module builds its output with \<^verbatim>\<open>yattag.Doc\<close>, a library outside the repository. What
  the code relies on is modelled here from the library's documented behaviour:
  \<^item> \<^verbatim>\<open>with doc.tag(name, **attrs)\<close> makes an element; \<^verbatim>\<open>klass\<close> is written \<^verbatim>\<open>class\<close>; an
    exception inside the block propagates;
  \<^item> \<^verbatim>\<open>doc.attr(k=v)\<close> adds an attribute to the element that is open;
  \<^item> \<^verbatim>\<open>doc.text(x)\<close> appends a text node for a string (HTML-escaped in the output), and raises
    TypeError for a value that is neither a string nor a number, so for \<^verbatim>\<open>None\<close>;
  \<^item> \<^verbatim>\<open>doc.getvalue()\<close> is the markup, attributes in the order they were given.
\<close>

datatype html = Elem string "(string \<times> string) list" "html list" | Text string

fun doc_text :: "string option \<Rightarrow> py_error + html" where
  "doc_text None = Inl TypeError"
| "doc_text (Some s) = Inr (Text s)"

definition html_escape :: "string \<Rightarrow> string" where
  "html_escape s = concat (map (\<lambda>c. if c = CHR ''&'' then ''&amp;'' else if c = CHR ''<'' then ''&lt;''
                                     else if c = CHR ''>'' then ''&gt;'' else [c]) s)"

definition attr_escape :: "string \<Rightarrow> string" where
  "attr_escape s = concat (map (\<lambda>c. if c = CHR ''&'' then ''&amp;'' else if c = CHR ''<'' then ''&lt;''
                                     else if c = CHR 0x22 then ''&quot;'' else [c]) s)"

definition attr_str :: "string \<times> string \<Rightarrow> string" where
  "attr_str kv = '' '' @ fst kv @ ''='' @ [CHR 0x22] @ attr_escape (snd kv) @ [CHR 0x22]"

fun getvalue :: "html \<Rightarrow> string" where
  "getvalue (Text s) = html_escape s"
| "getvalue (Elem name attrs kids) =
     ''<'' @ name @ concat (map attr_str attrs) @ ''>'' @ concat (map getvalue kids) @ ''</'' @ name @ ''>''"

text \<open>\<^verbatim>\<open>if x: doc.attr(style=x)\<close>\<close>

definition style_attr :: "string option \<Rightarrow> (string \<times> string) list" where
  "style_attr x = (if truthy x then [(''style'', the x)] else [])"

text \<open>
  \<^verbatim>\<open>Box.put_caption(self, doc)\<close>. \<open>doc\<close> is the list of children written so far into the
  element that is open; the method returns it with the caption element appended, or unchanged.
\<close>

definition put_caption :: "Box \<Rightarrow> html list \<Rightarrow> py_error + html list" where
  "put_caption self doc =
     (if truthy (cap self) \<or> truthy (cap_type self) then
        (case caption_txt self of
           Inl e \<Rightarrow> Inl e
         | Inr txt \<Rightarrow>
             (case doc_text (Some txt) of
                Inl e \<Rightarrow> Inl e
              | Inr t \<Rightarrow> Inr (doc @ [Elem ''div'' ((''class'', ''box caption'') # style_attr (cap_options self)) [t]])))
      else Inr doc)"

text \<open>\<^verbatim>\<open>Box.to_html\<close>: the element tree the method builds, then its markup.\<close>

definition to_tree :: "Box \<Rightarrow> py_error + html" where
  "to_tree self =
     (case doc_text (ctn self) of
        Inl e \<Rightarrow> Inl e
      | Inr t \<Rightarrow>
          (case put_caption self [Elem ''div'' ((''class'', ''box content'') # style_attr (ctn_options self)) [t]] of
             Inl e \<Rightarrow> Inl e
           | Inr kids \<Rightarrow>
               Inr (Elem ''div'' ([(''markdown'', ''1''), (''class'', ''box'')] @ style_attr (style self)) kids)))"

definition to_html :: "Box \<Rightarrow> py_error + string" where
  "to_html self = (case to_tree self of Inl e \<Rightarrow> Inl e | Inr h \<Rightarrow> Inr (getvalue h))"

section \<open>Substitution with \<^verbatim>\<open>re.sub\<close>\<close>

text \<open>
  \<^verbatim>\<open>re.sub(pattern, repl, string, 1)\<close> with a string \<open>repl\<close> reads \<open>repl\<close> as a template
  before it looks for a match: a backslash starts an escape or a reference to a group.
  The template language is the one of CPython 3.11, on characters below 256. A template
  with no backslash stands for itself.
\<close>

definition bs :: char where
  "bs = CHR 0x5C"

definition is_digit :: "char \<Rightarrow> bool" where
  "is_digit c = (48 \<le> (of_char c :: nat) \<and> (of_char c :: nat) \<le> 57)"

definition is_octdigit :: "char \<Rightarrow> bool" where
  "is_octdigit c = (48 \<le> (of_char c :: nat) \<and> (of_char c :: nat) \<le> 55)"

definition is_ascii_letter :: "char \<Rightarrow> bool" where
  "is_ascii_letter c = (let n = (of_char c :: nat) in (65 \<le> n \<and> n \<le> 90) \<or> (97 \<le> n \<and> n \<le> 122))"

definition digit_val :: "char \<Rightarrow> nat" where
  "digit_val c = of_char c - 48"

text \<open>The whitespace \<^verbatim>\<open>int(name)\<close> accepts around a number.\<close>

definition int_space :: "char \<Rightarrow> bool" where
  "int_space c = (let n = (of_char c :: nat) in (9 \<le> n \<and> n \<le> 13) \<or> n = 32 \<or> n = 133 \<or> n = 160)"

text \<open>Decimal digits, with single underscores allowed between two digits.\<close>

fun digits_us :: "string \<Rightarrow> bool" where
  "digits_us [] = False"
| "digits_us [c] = is_digit c"
| "digits_us (c # d # r) = (is_digit c \<and> (if d = CHR ''_'' then digits_us r else digits_us (d # r)))"

text \<open>
  The group a name in \<^verbatim>\<open>\g<name>\<close> refers to, for the pattern \<open>rebox\<close> with its one group
  \<^verbatim>\<open>box\<close>: the name \<^verbatim>\<open>box\<close>, or a number that \<^verbatim>\<open>int\<close> reads as 0 (the whole match) or 1.
  \<open>None\<close> is any error raised for the name.
\<close>

definition group_index :: "string \<Rightarrow> nat option" where
  "group_index name =
     (if name = ''box'' then Some 1
      else (let t = rev (dropWhile int_space (rev (dropWhile int_space name)));
                neg = (t \<noteq> [] \<and> hd t = CHR ''-'');
                u = (if t \<noteq> [] \<and> (hd t = CHR ''+'' \<or> hd t = CHR ''-'') then tl t else t);
                ds = filter is_digit u;
                v = foldl (\<lambda>a c. 10 * a + digit_val c) 0 ds
            in if digits_us u \<and> length ds \<le> 4300 \<and> v \<le> 1 \<and> (neg \<longrightarrow> v = 0) then Some v else None))"

text \<open>\<^verbatim>\<open>ESCAPES\<close> of the template parser: \<^verbatim>\<open>\a \b \f \n \r \t \v \\\<close>.\<close>

definition escape_char :: "char \<Rightarrow> char option" where
  "escape_char e =
     (if e = CHR ''a'' then Some (CHR 0x07) else if e = CHR ''b'' then Some (CHR 0x08)
      else if e = CHR ''f'' then Some (CHR 0x0C) else if e = CHR ''n'' then Some (CHR 0x0A)
      else if e = CHR ''r'' then Some (CHR 0x0D) else if e = CHR ''t'' then Some (CHR 0x09)
      else if e = CHR ''v'' then Some (CHR 0x0B) else if e = bs then Some bs else None)"

datatype tmpl = TLit string | TGrp nat

definition addgroup :: "nat \<Rightarrow> string \<Rightarrow> py_error + tmpl \<times> string" where
  "addgroup i rest = (if i > 1 then Inl TemplateError else Inr (TGrp i, rest))"

text \<open>One item of the template and the text left after it.\<close>

fun template_step :: "char \<Rightarrow> string \<Rightarrow> py_error + tmpl \<times> string" where
  "template_step c s =
     (if c \<noteq> bs then Inr (TLit [c], s)
      else (case s of
          [] \<Rightarrow> Inl TemplateError
        | e # r \<Rightarrow>
            if e = CHR ''g'' then
              (case r of
                 [] \<Rightarrow> Inl TemplateError
               | lt # r1 \<Rightarrow>
                   if lt \<noteq> CHR ''<'' then Inl TemplateError
                   else (let name = takeWhile (\<lambda>x. x \<noteq> CHR ''>'') r1;
                             rest = dropWhile (\<lambda>x. x \<noteq> CHR ''>'') r1
                         in if rest = [] then Inl TemplateError
                            else (case group_index name of
                                    None \<Rightarrow> Inl TemplateError
                                  | Some i \<Rightarrow> Inr (TGrp i, tl rest))))
            else if e = CHR ''0'' then
              (case r of
                 [] \<Rightarrow> Inr (TLit [char_of (0::nat)], [])
               | d1 # r1 \<Rightarrow>
                   if is_octdigit d1 then
                     (case r1 of
                        [] \<Rightarrow> Inr (TLit [char_of (digit_val d1)], [])
                      | d2 # r2 \<Rightarrow>
                          if is_octdigit d2 then Inr (TLit [char_of ((8 * digit_val d1 + digit_val d2) mod 256)], r2)
                          else Inr (TLit [char_of (digit_val d1)], r1))
                   else Inr (TLit [char_of (0::nat)], r))
            else if is_digit e then
              (case r of
                 [] \<Rightarrow> addgroup (digit_val e) []
               | d1 # r1 \<Rightarrow>
                   if is_digit d1 then
                     (case r1 of
                        [] \<Rightarrow> addgroup (10 * digit_val e + digit_val d1) r1
                      | d2 # r2 \<Rightarrow>
                          if is_octdigit e \<and> is_octdigit d1 \<and> is_octdigit d2 then
                            (let v = 64 * digit_val e + 8 * digit_val d1 + digit_val d2
                             in if v > 255 then Inl TemplateError else Inr (TLit [char_of v], r2))
                          else addgroup (10 * digit_val e + digit_val d1) r1)
                   else addgroup (digit_val e) r)
            else (case escape_char e of
                    Some ch \<Rightarrow> Inr (TLit [ch], r)
                  | None \<Rightarrow> if is_ascii_letter e then Inl TemplateError else Inr (TLit [bs, e], r))))"

declare template_step.simps [simp del]

lemma template_step_shorter: "template_step c s = Inr (it, rest) \<Longrightarrow> length rest \<le> length s"
proof -
  have dw: "\<And>r1 :: string. length (tl (dropWhile (\<lambda>x. x \<noteq> CHR ''>'') r1)) \<le> length r1"
    by (metis diff_le_self length_dropWhile_le length_tl order_trans)
  assume "template_step c s = Inr (it, rest)"
  then show ?thesis
    using dw
    by (auto simp: template_step.simps addgroup_def Let_def le_Suc_eq
             split: if_splits list.splits option.splits)
qed

function parse_template :: "string \<Rightarrow> py_error + tmpl list" where
  "parse_template [] = Inr []"
| "parse_template (c # s) =
     (case template_step c s of
        Inl e \<Rightarrow> Inl e
      | Inr (it, rest) \<Rightarrow> (case parse_template rest of Inl e \<Rightarrow> Inl e | Inr its \<Rightarrow> Inr (it # its)))"
  by pat_completeness auto
termination
  by (relation "measure length") (auto dest: template_step_shorter)

text \<open>\<^verbatim>\<open>match.group(i)\<close> by number for \<open>rebox\<close>: 0 is the whole match, 1 the group \<^verbatim>\<open>box\<close>.\<close>

definition group_by_index :: "re_match \<Rightarrow> nat \<Rightarrow> string option" where
  "group_by_index m i = (if i = 0 then Some (m_text m) else m_groups m ''box'')"

text \<open>Expansion of a parsed template: a group that took no part gives the empty string.\<close>

fun expand_item :: "re_match \<Rightarrow> tmpl \<Rightarrow> string" where
  "expand_item m (TLit l) = l"
| "expand_item m (TGrp i) = (case group_by_index m i of None \<Rightarrow> [] | Some g \<Rightarrow> g)"

definition expand_template :: "tmpl list \<Rightarrow> re_match \<Rightarrow> string" where
  "expand_template its m = concat (map (expand_item m) its)"

text \<open>
  \<^verbatim>\<open>re.sub(__rebox__, repl, string, 1)\<close>: the template is parsed first (a bad one raises even
  when nothing matches), then the first match, if any, is replaced.
\<close>

definition re_sub :: "string \<Rightarrow> string \<Rightarrow> py_error + string" where
  "re_sub repl s =
     (case parse_template repl of
        Inl e \<Rightarrow> Inl e
      | Inr its \<Rightarrow>
          (case re_search rebox s of
             None \<Rightarrow> Inr s
           | Some m \<Rightarrow> Inr (m_pre m @ expand_template its m @ m_post m)))"

section \<open>The substitution pass\<close>

text \<open>What a successful match leaves is no longer than the text it was given.\<close>

lemma run_until_post_le:
  "run p g s = Some (g', post) \<Longrightarrow> length post \<le> length s"
  "until n l k g acc s = Some (g', post) \<Longrightarrow> length post \<le> length s"
proof (induction p g s and n l k g acc s arbitrary: g' post and g' post rule: run_until.induct)
  case (1 g s)
  then show ?case by simp
next
  case (2 l k g s)
  then show ?case by (fastforce split: if_splits)
next
  case (3 n l k g s)
  then show ?case by simp
next
  case (4 n a b k g s)
  then show ?case by (fastforce split: list.splits if_splits option.splits)
next
  case (5 n l k g acc s)
  let ?first = "if prefix l s then run k (g(n \<mapsto> rev acc)) (drop (length l) s) else None"
  show ?case
  proof (cases ?first)
    case (Some m)
    with "5.prems" have pre: "prefix l s"
      and r: "run k (g(n \<mapsto> rev acc)) (drop (length l) s) = Some (g', post)"
      by (auto simp: until.simps [of n l k g acc s] split: if_splits)
    from "5.IH"(1) [OF pre r] show ?thesis by simp
  next
    case None
    with "5.prems" obtain x r where s: "s = x # r" and u: "until n l k g (x # acc) r = Some (g', post)"
      by (auto simp: until.simps [of n l k g acc s] split: list.splits)
    from "5.IH"(2) [OF None s u] s show ?thesis by simp
  qed
qed

lemma run_Lit_post:
  "run (Lit l # k) g s = Some (g', post) \<Longrightarrow> length post + length l \<le> length s"
  by (auto split: if_splits dest!: run_until_post_le(1) simp: prefix_def)

lemma search_from_post:
  "search_from (Lit l # k) acc s = Some m \<Longrightarrow> l \<noteq> [] \<Longrightarrow> length (m_post m) < length s"
proof (induction s arbitrary: acc)
  case Nil
  then show ?case by (subst (asm) search_from.simps) (auto split: option.splits if_splits)
next
  case (Cons x r)
  show ?case
  proof (cases "run (Lit l # k) Map.empty (x # r)")
    case None
    with Cons.prems have "search_from (Lit l # k) (x # acc) r = Some m"
      by (subst (asm) search_from.simps) simp
    with Cons.IH Cons.prems have "length (m_post m) < length r" by blast
    then show ?thesis by simp
  next
    case (Some gp)
    obtain g' post where gp: "gp = (g', post)" by (cases gp)
    from Some gp Cons.prems have "m_post m = post"
      by (subst (asm) search_from.simps) auto
    moreover from Some gp have "length post + length l \<le> length (x # r)"
      using run_Lit_post by blast
    ultimately show ?thesis using Cons.prems(2) by (cases l) auto
  qed
qed

lemma rebox_post: "re_search rebox s = Some m \<Longrightarrow> length (m_post m) < length s"
  unfolding re_search_def rebox_def by (rule search_from_post) auto

text \<open>
  \<^verbatim>\<open>re.finditer(__rebox__, s)\<close>: the matches of \<open>rebox\<close> in \<open>s\<close> that do not overlap, from left
  to right; the search for the next one starts where the last one ended. (A match of
  \<open>rebox\<close> is never empty.) In each match, \<open>m_pre\<close> is the text between the end of the
  match before and this one.
\<close>

function finditer :: "string \<Rightarrow> re_match list" where
  "finditer s = (case re_search rebox s of None \<Rightarrow> [] | Some m \<Rightarrow> m # finditer (m_post m))"
  by pat_completeness auto
termination
  by (relation "measure length") (auto dest: rebox_post)

declare finditer.simps [simp del]

text \<open>
  The body of the loop of \<^verbatim>\<open>parse\<close> for one match:
  \<^verbatim>\<open>box = Box(); box.get(source=match.group('box')); parsed_source = re.sub(__rebox__,box.to_html(),parsed_source,1)\<close>
\<close>

definition parse_step :: "re_match \<Rightarrow> string \<Rightarrow> py_error + string" where
  "parse_step match parsed_source =
     (case m_groups match ''box'' of
        None \<Rightarrow> Inl TypeError
      | Some source \<Rightarrow>
          (case get (Box_init ''box'') source of
             Inl e \<Rightarrow> Inl e
           | Inr box \<Rightarrow>
               (case to_html box of
                  Inl e \<Rightarrow> Inl e
                | Inr html \<Rightarrow> re_sub html parsed_source)))"

text \<open>The loop over the matches: an exception in one round ends the pass.\<close>

fun parse_loop :: "re_match list \<Rightarrow> string \<Rightarrow> py_error + string" where
  "parse_loop [] parsed_source = Inr parsed_source"
| "parse_loop (match # rest) parsed_source =
     (case parse_step match parsed_source of
        Inl e \<Rightarrow> Inl e
      | Inr parsed_source' \<Rightarrow> parse_loop rest parsed_source')"

text \<open>
  \<^verbatim>\<open>parse(source)\<close>: the matches are those of the source as it was given
  (\<^verbatim>\<open>re.finditer\<close> is called once, on the string \<^verbatim>\<open>parsed_source\<close> names at that moment), while
  each round replaces the first match of the working copy.
\<close>

definition parse :: "string \<Rightarrow> py_error + string" where
  "parse source = parse_loop (finditer source) source"

section \<open>Facts about searching\<close>

lemma search_from_Lit_None:
  "\<not> sublist l s \<Longrightarrow> search_from (Lit l # k) acc s = None"
proof (induction s arbitrary: acc)
  case Nil
  then show ?case by (subst search_from.simps) auto
next
  case (Cons x r)
  from Cons.prems have np: "\<not> prefix l (x # r)" and nr: "\<not> sublist l r"
    by (auto simp: sublist_Cons_right)
  from np have "run (Lit l # k) Map.empty (x # r) = None" by simp
  with Cons.IH [OF nr] show ?case by (subst search_from.simps) simp
qed

section \<open>Facts about \<open>get\<close>\<close>

text \<open>\<open>get\<close> never raises, and each field comes from the search of its own pattern.\<close>

lemma strip_Nil: "strip [] = []"
  by (simp add: strip_def)

lemma get_style_eq:
  "get_style self src =
     Inr (case re_search restl src of
            None \<Rightarrow> self
          | Some m \<Rightarrow> if truthy (m_groups m ''style'')
                      then self\<lparr>style := Some (strip (the (m_groups m ''style'')))\<rparr> else self)"
  by (cases "re_search restl src")
     (auto simp: get_style_def Let_def split: option.splits elim!: truthy.elims)

lemma set_cap_type_eq:
  "set_cap_type self t =
     Inr (if truthy t then
            (if map lower_char (the t) = ''none'' then self\<lparr>cap_type := None\<rparr>
             else self\<lparr>cap_type := Some (strip (the t))\<rparr>)
          else self)"
  by (cases t) (auto simp: set_cap_type_def)

lemma set_cap_options_eq:
  "set_cap_options self t = Inr (if truthy t then self\<lparr>cap_options := Some (strip (the t))\<rparr> else self)"
  by (cases t) (auto simp: set_cap_options_def)

lemma set_cap_eq:
  "set_cap self t = Inr (self\<lparr>cap := map_option strip t\<rparr>)"
  by (cases t) (auto simp: set_cap_def Let_def strip_Nil)

lemma set_ctn_type_eq:
  "set_ctn_type self t = Inr (if truthy t then self\<lparr>ctn_type := strip (the t)\<rparr> else self)"
  by (cases t) (auto simp: set_ctn_type_def)

lemma set_ctn_options_eq:
  "set_ctn_options self t = Inr (if truthy t then self\<lparr>ctn_options := Some (strip (the t))\<rparr> else self)"
  by (cases t) (auto simp: set_ctn_options_def)

lemma set_ctn_eq:
  "set_ctn self t = Inr (self\<lparr>ctn := map_option strip t\<rparr>)"
  by (cases t) (auto simp: set_ctn_def Let_def strip_Nil)

lemma get_caption_eq:
  "get_caption self src =
     Inr (case re_search recap src of
            None \<Rightarrow> self
          | Some m \<Rightarrow>
              self\<lparr>cap_type := (if truthy (m_groups m ''cap_type'') then
                                  (if map lower_char (the (m_groups m ''cap_type'')) = ''none'' then None
                                   else Some (strip (the (m_groups m ''cap_type''))))
                                else cap_type self),
                    cap_options := (if truthy (m_groups m ''cap_options'')
                                    then Some (strip (the (m_groups m ''cap_options''))) else cap_options self),
                    cap := map_option strip (m_groups m ''cap'')\<rparr>)"
  by (cases "re_search recap src")
     (simp_all add: get_caption_def set_cap_type_eq set_cap_options_eq set_cap_eq)

lemma get_content_eq:
  "get_content self src =
     Inr (case re_search rectn src of
            None \<Rightarrow> self
          | Some m \<Rightarrow>
              self\<lparr>ctn_type := (if truthy (m_groups m ''ctn_type'') then strip (the (m_groups m ''ctn_type''))
                                else ctn_type self),
                    ctn_options := (if truthy (m_groups m ''ctn_options'')
                                    then Some (strip (the (m_groups m ''ctn_options''))) else ctn_options self),
                    ctn := map_option strip (m_groups m ''ctn'')\<rparr>)"
  by (cases "re_search rectn src")
     (simp_all add: get_content_def set_ctn_type_eq set_ctn_options_eq set_ctn_eq)

lemma get_Inr: "\<exists>b. get self src = Inr b"
  by (simp add: get_def get_style_eq get_caption_eq get_content_eq)

lemma get_number: "get self src = Inr b \<Longrightarrow> number b = number self"
  by (cases "re_search restl src"; cases "re_search recap src"; cases "re_search rectn src")
     (auto simp: get_def get_style_eq get_caption_eq get_content_eq)

lemma get_style_field:
  "get self src = Inr b \<Longrightarrow>
   style b = (case re_search restl src of None \<Rightarrow> style self
      | Some m \<Rightarrow> if truthy (m_groups m ''style'') then Some (strip (the (m_groups m ''style''))) else style self)"
  by (cases "re_search restl src"; cases "re_search recap src"; cases "re_search rectn src")
     (auto simp: get_def get_style_eq get_caption_eq get_content_eq)

lemma get_cap_fields:
  "get self src = Inr b \<Longrightarrow>
   (case re_search recap src of
      None \<Rightarrow> cap_type b = cap_type self \<and> cap_options b = cap_options self \<and> cap b = cap self
    | Some m \<Rightarrow>
        cap_type b = (if truthy (m_groups m ''cap_type'') then
                        (if map lower_char (the (m_groups m ''cap_type'')) = ''none'' then None
                         else Some (strip (the (m_groups m ''cap_type''))))
                      else cap_type self)
      \<and> cap_options b = (if truthy (m_groups m ''cap_options'')
                          then Some (strip (the (m_groups m ''cap_options''))) else cap_options self)
      \<and> cap b = map_option strip (m_groups m ''cap''))"
  by (cases "re_search restl src"; cases "re_search recap src"; cases "re_search rectn src")
     (auto simp: get_def get_style_eq get_caption_eq get_content_eq)

lemma get_ctn_fields:
  "get self src = Inr b \<Longrightarrow>
   (case re_search rectn src of
      None \<Rightarrow> ctn_type b = ctn_type self \<and> ctn_options b = ctn_options self \<and> ctn b = ctn self
    | Some m \<Rightarrow>
        ctn_type b = (if truthy (m_groups m ''ctn_type'') then strip (the (m_groups m ''ctn_type''))
                      else ctn_type self)
      \<and> ctn_options b = (if truthy (m_groups m ''ctn_options'')
                          then Some (strip (the (m_groups m ''ctn_options''))) else ctn_options self)
      \<and> ctn b = map_option strip (m_groups m ''ctn''))"
  by (cases "re_search restl src"; cases "re_search recap src"; cases "re_search rectn src")
     (auto simp: get_def get_style_eq get_caption_eq get_content_eq)


section \<open>The claims\<close>

text \<open>
  C9. A document that contains no \<^verbatim>\<open>$box\<close> token is returned unchanged by the substitution
  pass: the pass finds no match, runs no round, and raises nothing.
\<close>

theorem C9_parse_no_box_unchanged:
  "\<not> sublist ''$box'' d \<Longrightarrow> parse d = Inr d"
proof -
  assume "\<not> sublist ''$box'' d"
  then have "re_search rebox d = None"
    unfolding re_search_def rebox_def by (rule search_from_Lit_None)
  then have "finditer d = []" by (subst finditer.simps) simp
  then show ?thesis by (simp add: parse_def)
qed

theorem C9_witness:
  "\<not> sublist ''$box'' ''Text $style[x] more'' \<and> parse ''Text $style[x] more'' = Inr ''Text $style[x] more''"
proof -
  have h: "\<not> sublist ''$box'' ''Text $style[x] more''" by code_simp
  show ?thesis using h C9_parse_no_box_unchanged [OF h] by simp
qed

lemma str_int_0: "str_int 0 = ''0''"
  by (simp add: str_int_def str_nat.simps)

text \<open>
  C10. With neither a caption body nor a caption type, \<open>caption_txt\<close> fails: no branch
  assigns \<^verbatim>\<open>txt\<close>. Rendering never reaches that: \<open>put_caption\<close> calls \<open>caption_txt\<close> only
  under its guard, where \<open>caption_txt\<close> returns a text, so neither \<open>put_caption\<close> nor
  \<open>to_html\<close> raises UnboundLocalError.
\<close>

theorem C10_neither_branch_unreachable:
  "(\<not> truthy (cap self) \<and> \<not> truthy (cap_type self) \<longrightarrow> caption_txt self = Inl UnboundLocalError)
   \<and> (truthy (cap self) \<or> truthy (cap_type self) \<longrightarrow> (\<exists>txt. caption_txt self = Inr txt))
   \<and> put_caption self doc \<noteq> Inl UnboundLocalError
   \<and> to_html self \<noteq> Inl UnboundLocalError"
proof -
  have a: "\<not> truthy (cap self) \<and> \<not> truthy (cap_type self) \<longrightarrow> caption_txt self = Inl UnboundLocalError"
    by (simp add: caption_txt_def)
  have b: "truthy (cap self) \<or> truthy (cap_type self) \<longrightarrow> (\<exists>txt. caption_txt self = Inr txt)"
    by (auto simp: caption_txt_def)
  have c: "put_caption self d \<noteq> Inl UnboundLocalError" for d
    using b by (auto simp: put_caption_def split: sum.splits)
  have d: "to_html self \<noteq> Inl UnboundLocalError"
    using c by (cases "ctn self") (auto simp: to_html_def to_tree_def split: sum.splits)
  from a b c d show ?thesis by blast
qed

theorem C10_witness:
  "\<not> truthy (cap (Box_init ''box'')) \<and> \<not> truthy (cap_type (Box_init ''box''))
   \<and> caption_txt (Box_init ''box'') = Inl UnboundLocalError
   \<and> put_caption (Box_init ''box'') [] = Inr []
   \<and> truthy (cap ((Box_init ''box'')\<lparr>cap := Some ''c''\<rparr>))
   \<and> caption_txt ((Box_init ''box'')\<lparr>cap := Some ''c''\<rparr>) = Inr ''c''"
  using C10_neither_branch_unreachable [of "Box_init ''box''" "[]"]
        C10_neither_branch_unreachable [of "(Box_init ''box'')\<lparr>cap := Some ''c''\<rparr>" "[]"]
  by (simp add: Box_init_def put_caption_def caption_txt_def)

text \<open>
  C5. \<open>put_caption\<close> appends a caption element exactly when the caption body or the caption
  type is non-empty. Its text is \<^verbatim>\<open>type number: body\<close> when both are non-empty, the type
  alone when only the type is, the body alone when only the body is. For a box with a
  content body, the rendered tree is the box element holding the content element and then
  that caption element, or the content element alone.
\<close>

theorem C5_caption_rendering:
  "put_caption self doc =
     (if truthy (cap self) \<or> truthy (cap_type self) then
        Inr (doc @ [Elem ''div'' ((''class'', ''box caption'') # style_attr (cap_options self))
               [Text (if truthy (cap_type self) \<and> truthy (cap self)
                      then the (cap_type self) @ '' '' @ str_int (number self) @ '': '' @ the (cap self)
                      else if truthy (cap_type self) then the (cap_type self)
                      else the (cap self))]])
      else Inr doc)
   \<and> (ctn self = Some c \<longrightarrow>
        to_tree self =
          Inr (Elem ''div'' ([(''markdown'', ''1''), (''class'', ''box'')] @ style_attr (style self))
                 (Elem ''div'' ((''class'', ''box content'') # style_attr (ctn_options self)) [Text c]
                  # (if truthy (cap self) \<or> truthy (cap_type self) then
                       [Elem ''div'' ((''class'', ''box caption'') # style_attr (cap_options self))
                          [Text (if truthy (cap_type self) \<and> truthy (cap self)
                                 then the (cap_type self) @ '' '' @ str_int (number self) @ '': '' @ the (cap self)
                                 else if truthy (cap_type self) then the (cap_type self)
                                 else the (cap self))]]
                     else []))))"
proof -
  have p: "put_caption self d =
     (if truthy (cap self) \<or> truthy (cap_type self) then
        Inr (d @ [Elem ''div'' ((''class'', ''box caption'') # style_attr (cap_options self))
               [Text (if truthy (cap_type self) \<and> truthy (cap self)
                      then the (cap_type self) @ '' '' @ str_int (number self) @ '': '' @ the (cap self)
                      else if truthy (cap_type self) then the (cap_type self)
                      else the (cap self))]])
      else Inr d)" for d
    by (simp add: put_caption_def caption_txt_def)
  show ?thesis
    by (simp only: p to_tree_def) simp
qed

theorem C5_witness:
  "put_caption ((Box_init ''box'')\<lparr>cap_type := Some ''Figure'', cap := Some ''A'', number := 3\<rparr>) []
     = Inr [Elem ''div'' [(''class'', ''box caption'')] [Text ''Figure 3: A'']]
   \<and> put_caption ((Box_init ''box'')\<lparr>cap_type := Some ''Figure''\<rparr>) []
     = Inr [Elem ''div'' [(''class'', ''box caption'')] [Text ''Figure'']]
   \<and> put_caption ((Box_init ''box'')\<lparr>cap := Some ''A'', cap_options := Some ''color:red;''\<rparr>) []
     = Inr [Elem ''div'' [(''class'', ''box caption''), (''style'', ''color:red;'')] [Text ''A'']]
   \<and> put_caption ((Box_init ''box'')\<lparr>cap := Some ''''\<rparr>) [] = Inr []
   \<and> to_tree ((Box_init ''box'')\<lparr>ctn := Some ''Hi''\<rparr>)
     = Inr (Elem ''div'' [(''markdown'', ''1''), (''class'', ''box'')]
              [Elem ''div'' [(''class'', ''box content'')] [Text ''Hi'']])"
  using C5_caption_rendering [of "(Box_init ''box'')\<lparr>cap_type := Some ''Figure'', cap := Some ''A'', number := 3\<rparr>" "[]" "''x''"]
        C5_caption_rendering [of "(Box_init ''box'')\<lparr>cap_type := Some ''Figure''\<rparr>" "[]" "''x''"]
        C5_caption_rendering [of "(Box_init ''box'')\<lparr>cap := Some ''A'', cap_options := Some ''color:red;''\<rparr>" "[]" "''x''"]
        C5_caption_rendering [of "(Box_init ''box'')\<lparr>cap := Some ''''\<rparr>" "[]" "''x''"]
        C5_caption_rendering [of "(Box_init ''box'')\<lparr>ctn := Some ''Hi''\<rparr>" "[]" "''Hi''"]
  by (simp add: Box_init_def style_attr_def str_int_def str_nat.simps)


end
